theory Spec2Isabelle
  imports Main "HOL-Library.Word" "HOL-Library.Sublist" "HOL-Library.AList"
begin

section \<open>Python values and exceptions\<close>

text \<open>
  The values that flow through the agent are the ones \<^verbatim>\<open>json.loads\<close> produces:
  \<^verbatim>\<open>None\<close>, booleans, integers, floats, strings, lists and string-keyed dictionaries.
  A dictionary is an association list in insertion order; a float is its binary64
  bit pattern. A caller of the store or of the executor may also pass a tuple, which
  the JSON encoder writes as an array.
\<close>

datatype pyval =
    PNone
  | PBool bool
  | PInt int
  | PFloat "64 word"
  | PStr string
  | PList "pyval list"
  | PDict "(string \<times> pyval) list"
  | PTuple "pyval list"

datatype exn =
    KeyError string
  | TypeError string
  | IndexError string
  | JSONDecodeError string
  | ToolFailure string
  | OracleFailure string
  | FileNotFoundError string
  | AttributeError string
  | RecursionError string
  | SystemExit string
  | RetryError exn

text \<open>\<^verbatim>\<open>except Exception\<close> catches the instances of the class \<^verbatim>\<open>Exception\<close>. \<open>SystemExit\<close>
  stands for the exceptions outside that class (\<^verbatim>\<open>SystemExit\<close>, \<^verbatim>\<open>KeyboardInterrupt\<close>,
  \<^verbatim>\<open>GeneratorExit\<close>).\<close>

fun is_Exception :: "exn \<Rightarrow> bool" where
  "is_Exception (SystemExit m) = False"
| "is_Exception e = True"

text \<open>\<^verbatim>\<open>d[k]\<close>: subscripting anything but a dictionary with a string raises
  TypeError, a missing key raises KeyError.\<close>

definition getitem :: "pyval \<Rightarrow> string \<Rightarrow> exn + pyval" where
  "getitem d k =
     (case d of
        PDict kvs \<Rightarrow> (case map_of kvs k of None \<Rightarrow> Inl (KeyError k) | Some v \<Rightarrow> Inr v)
      | _ \<Rightarrow> Inl (TypeError ''not subscriptable by str''))"

text \<open>\<^verbatim>\<open>xs[k:]\<close> for a Python integer \<open>k\<close>: a negative start counts from the end
  and is clipped at the front, a non-negative start is clipped at the end.\<close>

definition slice_from :: "int \<Rightarrow> 'a list \<Rightarrow> 'a list" where
  "slice_from k xs =
     (let n = int (length xs);
          start = (if k < 0 then max 0 (n + k) else min k n)
      in drop (nat start) xs)"

text \<open>\<^verbatim>\<open>str(v)\<close> and f-string interpolation return a string unchanged; the rendering of
  every other value is the interpreter's and is taken as the parameter \<open>rp\<close>.\<close>

definition py_str :: "(pyval \<Rightarrow> string) \<Rightarrow> pyval \<Rightarrow> string" where
  "py_str rp v = (case v of PStr s \<Rightarrow> s | _ \<Rightarrow> rp v)"

section \<open>memory.py\<close>

record memory =
  messages :: "pyval list"
  tool_usage :: "pyval list"
  max_history :: int

definition Memory :: "int \<Rightarrow> memory" where
  "Memory mh = \<lparr>messages = [], tool_usage = [], max_history = mh\<rparr>"

text \<open>The timestamp \<^verbatim>\<open>datetime.now().isoformat()\<close> is read from the environment and
  passed in as \<open>now\<close>.\<close>

definition message :: "string \<Rightarrow> string \<Rightarrow> pyval \<Rightarrow> pyval" where
  "message now role content =
     PDict [(''role'', PStr role), (''content'', content), (''timestamp'', PStr now)]"

definition add_message :: "string \<Rightarrow> string \<Rightarrow> pyval \<Rightarrow> memory \<Rightarrow> memory" where
  "add_message now role content m =
     (let msgs = messages m @ [message now role content]
      in if int (length msgs) > max_history m
         then m\<lparr>messages := slice_from (- max_history m) msgs\<rparr>
         else m\<lparr>messages := msgs\<rparr>)"

definition tool_record :: "string \<Rightarrow> pyval \<Rightarrow> pyval \<Rightarrow> pyval \<Rightarrow> pyval" where
  "tool_record now tool_name input_params result =
     PDict [(''tool'', tool_name), (''input'', input_params), (''result'', result),
            (''timestamp'', PStr now)]"

definition add_tool_use :: "string \<Rightarrow> pyval \<Rightarrow> pyval \<Rightarrow> pyval \<Rightarrow> memory \<Rightarrow> memory" where
  "add_tool_use now tool_name input_params result m =
     m\<lparr>tool_usage := tool_usage m @ [tool_record now tool_name input_params result]\<rparr>"

text \<open>The loop body of \<^verbatim>\<open>get_recent_history\<close>: one line per message, stopping at the
  first message that has no \<^verbatim>\<open>role\<close> or \<^verbatim>\<open>content\<close>.\<close>

fun history_lines :: "(pyval \<Rightarrow> string) \<Rightarrow> string \<Rightarrow> pyval list \<Rightarrow> exn + string" where
  "history_lines rp acc [] = Inr acc"
| "history_lines rp acc (msg # rest) =
     (case getitem msg ''role'' of
        Inl e \<Rightarrow> Inl e
      | Inr r \<Rightarrow>
          (case getitem msg ''content'' of
             Inl e \<Rightarrow> Inl e
           | Inr c \<Rightarrow> history_lines rp (acc @ py_str rp r @ '': '' @ py_str rp c @ [CHR 0x0A]) rest))"

definition get_recent_history :: "(pyval \<Rightarrow> string) \<Rightarrow> int \<Rightarrow> memory \<Rightarrow> exn + string" where
  "get_recent_history rp n m =
     (let recent = (if int (length (messages m)) > n then slice_from (- n) (messages m)
                    else messages m)
      in history_lines rp [] recent)"

text \<open>\<^verbatim>\<open>set(...)\<close> needs hashable elements: lists and dictionaries are not, a tuple is
  when its elements are.\<close>

fun hashable :: "pyval \<Rightarrow> bool" where
  "hashable (PList _) = False"
| "hashable (PDict _) = False"
| "hashable (PTuple xs) = list_all hashable xs"
| "hashable _ = True"



definition clear :: "memory \<Rightarrow> memory" where
  "clear m = m\<lparr>messages := [], tool_usage := []\<rparr>"

text \<open>
  Persistence. The files are a map from paths to contents; opening a path for
  writing is taken to succeed. The encoder and the decoder are the library's and are
  parameters: \<open>dump d\<close> is the text \<^verbatim>\<open>json.dump(d, f, indent=2)\<close> has written to the
  file when it returns or raises, with the exception if it raises; \<open>load\<close> is
  \<^verbatim>\<open>json.load\<close> on the text of the file.
\<close>

type_synonym files = "string \<rightharpoonup> string"

record json_codec =
  dump :: "pyval \<Rightarrow> string \<times> exn option"
  load :: "string \<Rightarrow> exn + pyval"



text \<open>\<^verbatim>\<open>data.get(key, [])\<close> on the decoded document.\<close>

definition get_or_empty :: "pyval \<Rightarrow> string \<Rightarrow> exn + pyval" where
  "get_or_empty data k =
     (case data of
        PDict kvs \<Rightarrow> (case map_of kvs k of None \<Rightarrow> Inr (PList []) | Some v \<Rightarrow> Inr v)
      | _ \<Rightarrow> Inl (AttributeError ''get''))"

text \<open>\<^verbatim>\<open>load_from_file\<close> assigns whatever the two fields of the document hold: the
  store with the two lists, or, when one of the two values is not a list, an object
  that holds these values and is no store any more.\<close>

datatype loaded = Store memory | Not_lists pyval pyval

definition load_from_file :: "json_codec \<Rightarrow> string \<Rightarrow> files \<Rightarrow> memory \<Rightarrow> exn + loaded" where
  "load_from_file J filepath fs m =
     (case fs filepath of
        None \<Rightarrow> Inl (FileNotFoundError filepath)
      | Some text \<Rightarrow>
          (case load J text of
             Inl e \<Rightarrow> Inl e
           | Inr data \<Rightarrow>
               (case get_or_empty data ''messages'' of
                  Inl e \<Rightarrow> Inl e
                | Inr ms \<Rightarrow>
                    (case get_or_empty data ''tool_usage'' of
                       Inl e \<Rightarrow> Inl e
                     | Inr ts \<Rightarrow>
                         (case (ms, ts) of
                            (PList msgs, PList uses) \<Rightarrow>
                              Inr (Store (m\<lparr>messages := msgs, tool_usage := uses\<rparr>))
                          | _ \<Rightarrow> Inr (Not_lists ms ts))))))"

section \<open>executor.py\<close>

text \<open>
  A tool is a named callable that may keep state of its own between calls: its body maps
  its state and the parameters to an outcome and the next state. The body returns or
  raises: \<open>Exception msg\<close> is an instance \<open>e\<close> of \<^verbatim>\<open>Exception\<close> with
  \<^verbatim>\<open>str(e) = msg\<close>, \<open>Interrupt msg\<close> an exception outside the class \<^verbatim>\<open>Exception\<close>
  (\<^verbatim>\<open>SystemExit\<close>, \<^verbatim>\<open>KeyboardInterrupt\<close>).
\<close>

datatype raised = Exception string | Interrupt string

record 's tool_func =
  tool_name :: string
  body :: "'s \<Rightarrow> pyval \<Rightarrow> (raised + pyval) \<times> 's"

record execution_record =
  rec_timestamp :: string
  rec_tool :: string
  rec_parameters :: pyval
  rec_result :: pyval
  rec_success :: bool
  rec_error :: "string option"

record ToolExecutor =
  max_retries :: int
  execution_history :: "execution_record list"

definition new_ToolExecutor :: "int \<Rightarrow> ToolExecutor" where
  "new_ToolExecutor mr = \<lparr>max_retries = mr, execution_history = []\<rparr>"

definition record_execution ::
  "string \<Rightarrow> string \<Rightarrow> pyval \<Rightarrow> pyval \<Rightarrow> bool \<Rightarrow> string option \<Rightarrow> ToolExecutor \<Rightarrow> ToolExecutor" where
  "record_execution now tname parameters result success error ex =
     ex\<lparr>execution_history := execution_history ex @
          [\<lparr>rec_timestamp = now, rec_tool = tname, rec_parameters = parameters,
            rec_result = result, rec_success = success, rec_error = error\<rparr>]\<rparr>"

text \<open>The undecorated body of \<^verbatim>\<open>execute_with_retry\<close>: one invocation of the tool, recorded
  in either branch, the exception re-raised. The handler is \<^verbatim>\<open>except Exception\<close>: an
  exception outside that class passes through it, and nothing is recorded. The two log
  lines before the \<^verbatim>\<open>try\<close> block render the name of the tool and the parameters, which
  is taken not to raise.\<close>

definition execute_once ::
  "string \<Rightarrow> 's tool_func \<Rightarrow> pyval \<Rightarrow> ToolExecutor \<times> 's \<Rightarrow> (exn + pyval) \<times> (ToolExecutor \<times> 's)" where
  "execute_once now tf parameters st =
     (case body tf (snd st) parameters of
        (Inr result, s') \<Rightarrow>
          (Inr result, (record_execution now (tool_name tf) parameters result True None (fst st), s'))
      | (Inl (Exception msg), s') \<Rightarrow>
          (Inl (ToolFailure msg),
           (record_execution now (tool_name tf) parameters PNone False (Some msg) (fst st), s'))
      | (Inl (Interrupt msg), s') \<Rightarrow> (Inl (SystemExit msg), (fst st, s')))"

text \<open>
  The decorator \<^verbatim>\<open>@retry(stop=stop_after_attempt(n), wait=...)\<close> of the tenacity library:
  the wrapped function is called with attempt numbers 1, 2, ...; a returned value is
  returned; an exception outside the class \<^verbatim>\<open>Exception\<close> is raised again at once (the
  default retry condition is \<^verbatim>\<open>retry_if_exception_type(Exception)\<close>); after any other
  exception the stop condition \<^verbatim>\<open>attempt_number >= n\<close> is tested, and when it holds a
  \<^verbatim>\<open>RetryError\<close> wrapping the last exception is raised (the decorator is used without
  \<^verbatim>\<open>reraise\<close>), otherwise the call is repeated. The waiting times are not modelled.
\<close>

function retry ::
  "nat \<Rightarrow> nat \<Rightarrow> (nat \<Rightarrow> 'st \<Rightarrow> (exn + 'a) \<times> 'st) \<Rightarrow> 'st \<Rightarrow> (exn + 'a) \<times> 'st" where
  "retry n attempt_number f st =
     (case f attempt_number st of
        (Inr v, st') \<Rightarrow> (Inr v, st')
      | (Inl e, st') \<Rightarrow>
          if \<not> is_Exception e then (Inl e, st')
          else if attempt_number \<ge> n then (Inl (RetryError e), st')
          else retry n (Suc attempt_number) f st')"
  by pat_completeness auto
termination
  by (relation "measure (\<lambda>(n, k, f, st). n - k)") auto

text \<open>\<open>clock k\<close> is the time read during attempt \<open>k\<close>.\<close>

definition execute_with_retry ::
  "(nat \<Rightarrow> string) \<Rightarrow> 's tool_func \<Rightarrow> pyval \<Rightarrow> ToolExecutor \<times> 's \<Rightarrow> (exn + pyval) \<times> (ToolExecutor \<times> 's)" where
  "execute_with_retry clock tf parameters st =
     retry 3 1 (\<lambda>k. execute_once (clock k) tf parameters) st"

text \<open>\<^verbatim>\<open>execute_safe\<close>: the handler is \<^verbatim>\<open>except Exception\<close> again. Its first line renders
  the default value into the log message before the value is returned; the rendering is
  the value's own and is the parameter \<open>fmt\<close>, which may raise.\<close>

definition execute_safe ::
  "(nat \<Rightarrow> string) \<Rightarrow> (pyval \<Rightarrow> exn + string) \<Rightarrow> 's tool_func \<Rightarrow> pyval \<Rightarrow> pyval \<Rightarrow>
   ToolExecutor \<times> 's \<Rightarrow> (exn + pyval) \<times> (ToolExecutor \<times> 's)" where
  "execute_safe clock fmt tf parameters default_value st =
     (case execute_with_retry clock tf parameters st of
        (Inr v, st') \<Rightarrow> (Inr v, st')
      | (Inl e, st') \<Rightarrow>
          if is_Exception e then
            (case fmt default_value of
               Inl e' \<Rightarrow> (Inl e', st')
             | Inr line \<Rightarrow> (Inr default_value, st'))
          else (Inl e, st'))"

section \<open>planner.py\<close>

text \<open>
  A text is the list of its UTF-8 code units, on which containment of an ASCII keyword
  is containment of Python strings. \<^verbatim>\<open>str.lower\<close> follows the Unicode case mapping and
  is the library's: it is the parameter \<open>lw\<close> of the planner.
\<close>

text \<open>\<^verbatim>\<open>any(w in s for w in ws)\<close>, with \<^verbatim>\<open>w in s\<close> the substring test.\<close>

definition any_in :: "string list \<Rightarrow> string \<Rightarrow> bool" where
  "any_in ws s = list_ex (\<lambda>w. sublist w s) ws"

text \<open>A step is a dictionary from strings to strings; a plan has the three keys
  \<^verbatim>\<open>goal\<close>, \<^verbatim>\<open>steps\<close> and \<^verbatim>\<open>status\<close>.\<close>

type_synonym step = "(string \<times> string) list"

record plan =
  goal :: string
  steps :: "step list"
  status :: string

record TaskPlanner =
  current_plan :: "plan option"

definition use_tool_step :: "string \<Rightarrow> string \<Rightarrow> step" where
  "use_tool_step t d = [(''action'', ''use_tool''), (''tool'', t), (''description'', d)]"

definition think_step :: step where
  "think_step = [(''action'', ''think''),
                 (''description'', ''Analyze the goal and determine approach'')]"

definition synthesize_step :: step where
  "synthesize_step = [(''action'', ''synthesize''),
                      (''description'', ''Combine results and provide final answer'')]"

definition decompose_goal :: "(string \<Rightarrow> string) \<Rightarrow> string \<Rightarrow> pyval \<Rightarrow> step list" where
  "decompose_goal lw g tools =
     (let steps = [];
          goal_lower = lw g;
          steps = (if any_in [''calculate'', ''compute'', ''+'', ''-'', ''*'', ''/'', ''sum''] goal_lower
                   then steps @ [use_tool_step ''calculator'' ''Perform calculation'']
                   else steps);
          steps = (if any_in [''search'', ''find'', ''look up'', ''research''] goal_lower
                   then steps @ [use_tool_step ''web_search'' ''Search for information'']
                   else steps);
          steps = (if sublist ''read'' goal_lower \<and> sublist ''file'' goal_lower
                   then steps @ [use_tool_step ''file_read'' ''Read file contents'']
                   else steps);
          steps = (if sublist ''write'' goal_lower \<or> sublist ''save'' goal_lower
                   then steps @ [use_tool_step ''file_write'' ''Write to file'']
                   else steps);
          steps = (if any_in [''time'', ''date'', ''when'', ''current''] goal_lower
                   then steps @ [use_tool_step ''get_current_time'' ''Get current time'']
                   else steps);
          steps = (if sublist ''weather'' goal_lower
                   then steps @ [use_tool_step ''weather'' ''Get weather information'']
                   else steps);
          steps = (if steps = [] then steps @ [think_step] else steps)
      in steps @ [synthesize_step])"

definition create_plan ::
  "(string \<Rightarrow> string) \<Rightarrow> string \<Rightarrow> pyval \<Rightarrow> TaskPlanner \<Rightarrow> plan \<times> TaskPlanner" where
  "create_plan lw g available_tools p =
     (let pl = \<lparr>goal = g, steps = decompose_goal lw g available_tools, status = ''pending''\<rparr>
      in (pl, p\<lparr>current_plan := Some pl\<rparr>))"

text \<open>
  \<^verbatim>\<open>update_plan_status\<close>: the guard compares \<^verbatim>\<open>step_index\<close> with the length only from
  above; the subscript that follows is Python's, where a negative index counts from the
  end and one below \<^verbatim>\<open>-len\<close> raises IndexError. The assignment sets the key
  \<^verbatim>\<open>status\<close> of the step's dictionary.
\<close>

definition update_plan_status :: "int \<Rightarrow> string \<Rightarrow> TaskPlanner \<Rightarrow> exn + TaskPlanner" where
  "update_plan_status step_index st p =
     (case current_plan p of
        None \<Rightarrow> Inr p
      | Some pl \<Rightarrow>
          if step_index < int (length (steps pl)) then
            (let n = int (length (steps pl));
                 j = (if step_index < 0 then n + step_index else step_index)
             in if 0 \<le> j \<and> j < n
                then Inr (p\<lparr>current_plan := Some (pl\<lparr>steps :=
                       (steps pl)[nat j := AList.update ''status'' st (steps pl ! nat j)]\<rparr>)\<rparr>)
                else Inl (IndexError ''list index out of range''))
          else Inr p)"

section \<open>tools.py: the registry\<close>


text \<open>
  What lies outside the program is a parameter of the model:
  \<^item> \<open>completion k\<close>: the \<open>k\<close>-th chat completion, the text of its first choice or a
    transport failure;
  \<^item> \<open>loads\<close>: \<^verbatim>\<open>json.loads\<close>, the decoded value or the exception it raises;
  \<^item> \<open>tool_call k name parameters\<close>: the body of a registered tool called with
    \<^verbatim>\<open>**parameters\<close> during iteration \<open>k\<close>: what it returns or raises;
  \<^item> \<open>clock k\<close>: the time read during iteration \<open>k\<close> (\<open>0\<close> before the loop);
  \<^item> \<open>render\<close>: the rendering of a value that is not a string;
  \<^item> \<open>str_lower\<close>: \<^verbatim>\<open>str.lower\<close>.
\<close>

record env =
  completion :: "nat \<Rightarrow> exn + string"
  loads :: "string \<Rightarrow> exn + pyval"
  tool_call :: "nat \<Rightarrow> string \<Rightarrow> pyval \<Rightarrow> raised + pyval"
  clock :: "nat \<Rightarrow> string"
  render :: "pyval \<Rightarrow> string"
  str_lower :: "string \<Rightarrow> string"


section \<open>agent.py\<close>

record AgenticAI =
  max_iterations :: int
  memory :: memory
  planner :: TaskPlanner








record outcome =
  success :: bool
  result :: pyval
  iterations :: int
  tools_used :: "pyval set"


section \<open>Sequences of calls\<close>

text \<open>A sequence of \<^verbatim>\<open>add_message\<close> calls, each with the time it reads, and the messages
  the calls create.\<close>

fun add_messages :: "(string \<times> string \<times> pyval) list \<Rightarrow> memory \<Rightarrow> memory" where
  "add_messages [] m = m"
| "add_messages ((now, role, content) # calls) m =
     add_messages calls (add_message now role content m)"

definition built :: "(string \<times> string \<times> pyval) list \<Rightarrow> pyval list" where
  "built calls = map (\<lambda>(now, role, content). message now role content) calls"

text \<open>The line \<^verbatim>\<open>"<role>: <content>\n"\<close> of one message.\<close>

definition history_line :: "(pyval \<Rightarrow> string) \<Rightarrow> string \<times> string \<times> pyval \<Rightarrow> string" where
  "history_line rp c =
     (case c of (now, role, content) \<Rightarrow> role @ '': '' @ py_str rp content @ [CHR 0x0A])"

section \<open>Well-formed memories, actions that continue the loop, scripted environments\<close>

text \<open>A message can be rendered when it has a role and a content; a tool record can be
  counted when it has a hashable tool name.\<close>

definition wf_message :: "pyval \<Rightarrow> bool" where
  "wf_message msg =
     (case getitem msg ''role'' of
        Inl e \<Rightarrow> False
      | Inr r \<Rightarrow> (case getitem msg ''content'' of Inl e \<Rightarrow> False | Inr c \<Rightarrow> True))"

definition wf_tool_record :: "pyval \<Rightarrow> bool" where
  "wf_tool_record r = (case getitem r ''tool'' of Inl e \<Rightarrow> False | Inr t \<Rightarrow> hashable t)"

definition wf_memory :: "memory \<Rightarrow> bool" where
  "wf_memory m = (list_all wf_message (messages m) \<and> list_all wf_tool_record (tool_usage m))"





text \<open>The case mapping on texts of ASCII characters, where \<^verbatim>\<open>str.lower\<close> changes the
  letters \<^verbatim>\<open>A\<close> to \<^verbatim>\<open>Z\<close> only. It stands for \<^verbatim>\<open>str.lower\<close> in the worked examples, whose
  goals are ASCII.\<close>

definition lower_char :: "char \<Rightarrow> char" where
  "lower_char c =
     (let n = (of_char c :: nat) in if 65 \<le> n \<and> n \<le> 90 then char_of (n + 32) else c)"

definition ascii_lower :: "string \<Rightarrow> string" where
  "ascii_lower s = map lower_char s"

text \<open>Environments for the worked examples: the replies are scripted, the decoder knows
  the replies below, raises \<^verbatim>\<open>RecursionError\<close> on the deeply nested text (as the library
  does on a hundred thousand opening brackets) and \<^verbatim>\<open>JSONDecodeError\<close> on every other
  text; every tool returns \<^verbatim>\<open>"ok"\<close>.\<close>

definition think_reply :: string where
  \<open>think_reply = ''{"type": "think", "thought": "x"}''\<close>

definition complete_reply :: string where
  \<open>complete_reply = ''{"type": "complete", "result": "42"}''\<close>

definition deep_reply :: string where
  "deep_reply = replicate 100000 (CHR ''['')"

definition sample_decodings :: "(string \<times> pyval) list" where
  "sample_decodings =
     [(think_reply, PDict [(''type'', PStr ''think''), (''thought'', PStr ''x'')]),
      (complete_reply, PDict [(''type'', PStr ''complete''), (''result'', PStr ''42'')]),
      (''42'', PInt 42)]"

definition scripted :: "(nat \<Rightarrow> string) \<Rightarrow> env" where
  "scripted replies =
     \<lparr>completion = (\<lambda>k. Inr (replies k)),
      loads = (\<lambda>s. if s = deep_reply
                      then Inl (RecursionError ''maximum recursion depth exceeded'')
                      else case map_of sample_decodings s of
                             Some v \<Rightarrow> Inr v
                           | None \<Rightarrow> Inl (JSONDecodeError ''Expecting value'')),
      tool_call = (\<lambda>k nm parameters. Inr (PStr ''ok'')),
      clock = (\<lambda>k. ''now''),
      render = (\<lambda>v. ''<value>''),
      str_lower = ascii_lower\<rparr>"






section \<open>Test doubles and record shapes for the executor\<close>

text \<open>Three tools that count their calls: one raises an \<^verbatim>\<open>Exception\<close> on its first two
  calls and then returns 7, one raises an \<^verbatim>\<open>Exception\<close> on every call, one calls
  \<^verbatim>\<open>sys.exit\<close>.\<close>

definition flaky_tool :: "nat tool_func" where
  "flaky_tool = \<lparr>tool_name = ''flaky'',
                  body = (\<lambda>calls p. if calls < 2 then (Inl (Exception ''boom''), Suc calls)
                                     else (Inr (PInt 7), Suc calls))\<rparr>"

definition failing_tool :: "nat tool_func" where
  "failing_tool = \<lparr>tool_name = ''failing'',
                    body = (\<lambda>calls p. (Inl (Exception ''boom''), Suc calls))\<rparr>"

definition exiting_tool :: "nat tool_func" where
  "exiting_tool = \<lparr>tool_name = ''exiting'',
                    body = (\<lambda>calls p. (Inl (Interrupt ''bye''), Suc calls))\<rparr>"

definition failure_record :: "string \<Rightarrow> 's tool_func \<Rightarrow> pyval \<Rightarrow> string \<Rightarrow> execution_record" where
  "failure_record now tf p msg =
     \<lparr>rec_timestamp = now, rec_tool = tool_name tf, rec_parameters = p,
      rec_result = PNone, rec_success = False, rec_error = Some msg\<rparr>"

definition success_record :: "string \<Rightarrow> 's tool_func \<Rightarrow> pyval \<Rightarrow> pyval \<Rightarrow> execution_record" where
  "success_record now tf p v =
     \<lparr>rec_timestamp = now, rec_tool = tool_name tf, rec_parameters = p,
      rec_result = v, rec_success = True, rec_error = None\<rparr>"

definition appended :: "ToolExecutor \<Rightarrow> execution_record list \<Rightarrow> ToolExecutor" where
  "appended ex rs = ex\<lparr>execution_history := execution_history ex @ rs\<rparr>"

section \<open>Properties of the memory store\<close>

lemma slice_from_neg: "0 < k \<Longrightarrow> slice_from (- k) xs = drop (length xs - nat k) xs"
  by (auto simp: slice_from_def Let_def max_def nat_diff_distrib' intro: arg_cong)

lemma slice_from_zero: "slice_from 0 xs = xs"
  by (simp add: slice_from_def)

lemma max_history_add_message [simp]:
  "max_history (add_message now role content m) = max_history m"
  by (simp add: add_message_def Let_def)

lemma tool_usage_add_message [simp]:
  "tool_usage (add_message now role content m) = tool_usage m"
  by (simp add: add_message_def Let_def)

lemma length_built [simp]: "length (built calls) = length calls"
  by (simp add: built_def)

lemma built_drop: "drop k (built calls) = built (drop k calls)"
  by (simp add: built_def drop_map)

lemma messages_add_message_pos:
  "1 \<le> max_history m \<Longrightarrow>
   messages (add_message now role content m) =
     drop (Suc (length (messages m)) - nat (max_history m))
       (messages m @ [message now role content])"
  by (auto simp: add_message_def Let_def slice_from_neg)

lemma drop_append_short: "n \<le> length xs \<Longrightarrow> drop n xs @ ys = drop n (xs @ ys)"
  by simp

text \<open>With a capacity of at least one, a store that is within its capacity holds, after
  any further calls, the most recent messages up to the capacity, in insertion order.\<close>

lemma add_messages_keeps_recent:
  "1 \<le> max_history m \<Longrightarrow> length (messages m) \<le> nat (max_history m) \<Longrightarrow>
   messages (add_messages calls m) =
     drop (length (messages m) + length calls - nat (max_history m)) (messages m @ built calls)"
proof (induction calls arbitrary: m)
  case Nil
  then show ?case by (simp add: built_def)
next
  case (Cons c calls)
  obtain now role content where c: "c = (now, role, content)" by (cases c)
  let ?m' = "add_message now role content m"
  let ?A = "messages m @ [message now role content]"
  let ?k = "nat (max_history m)"
  let ?b = "Suc (length (messages m)) - ?k"
  have msgs: "messages ?m' = drop ?b ?A"
    using Cons.prems(1) by (rule messages_add_message_pos)
  have len: "length (messages ?m') \<le> nat (max_history ?m')"
    using Cons.prems by (simp add: msgs)
  have bl: "?b \<le> length ?A" by simp
  have IH: "messages (add_messages calls ?m') =
     drop (length (messages ?m') + length calls - ?k) (messages ?m' @ built calls)"
    using Cons.IH[of ?m'] Cons.prems(1) len by simp
  have e1: "messages ?m' @ built calls = drop ?b (?A @ built calls)"
    unfolding msgs using bl by (rule drop_append_short)
  have e2: "length (messages ?m') + length calls - ?k + ?b
      = length (messages m) + length (c # calls) - ?k"
    using Cons.prems(2) unfolding msgs by (simp del: drop_append)
  have e3: "?A @ built calls = messages m @ built (c # calls)"
    by (simp add: built_def c)
  have "messages (add_messages (c # calls) m) = messages (add_messages calls ?m')"
    by (simp add: c)
  also have "\<dots> = drop (length (messages ?m') + length calls - ?k) (drop ?b (?A @ built calls))"
    using IH e1 by (simp only:)
  also have "\<dots> = drop (length (messages ?m') + length calls - ?k + ?b) (?A @ built calls)"
    by (rule drop_drop)
  also have "\<dots> = drop (length (messages m) + length (c # calls) - ?k)
                      (messages m @ built (c # calls))"
    using e2 e3 by (simp only:)
  finally show ?case .
qed

text \<open>On a fresh store with a capacity of at least one, more calls than the capacity
  leave exactly \<open>max_history\<close> messages: the most recent ones, in their order.\<close>

lemma add_messages_fresh_pos:
  assumes "1 \<le> mh" and "mh < int (length calls)"
  shows "messages (add_messages calls (Memory mh)) = drop (length calls - nat mh) (built calls)"
    and "length (messages (add_messages calls (Memory mh))) = nat mh"
proof -
  have "messages (add_messages calls (Memory mh)) =
          drop (length (messages (Memory mh)) + length calls - nat (max_history (Memory mh)))
            (messages (Memory mh) @ built calls)"
    by (rule add_messages_keeps_recent) (use assms in \<open>simp_all add: Memory_def\<close>)
  then show m: "messages (add_messages calls (Memory mh)) = drop (length calls - nat mh) (built calls)"
    by (simp add: Memory_def)
  show "length (messages (add_messages calls (Memory mh))) = nat mh"
    using assms unfolding m by simp
qed

lemma add_messages_zero_capacity:
  "max_history m = 0 \<Longrightarrow> messages (add_messages calls m) = messages m @ built calls"
proof (induction calls arbitrary: m)
  case Nil
  then show ?case by (simp add: built_def)
next
  case (Cons c calls)
  obtain now role content where c: "c = (now, role, content)" by (cases c)
  have "messages (add_message now role content m) = messages m @ [message now role content]"
    using Cons.prems by (simp add: add_message_def Let_def slice_from_zero)
  then show ?case
    using Cons.IH[of "add_message now role content m"] Cons.prems
    by (simp add: c built_def)
qed

text \<open>
  Claim C3 (the store keeps exactly the most recent \<open>max_history\<close> messages once more
  than \<open>max_history\<close> have been added). The trimming slice is \<^verbatim>\<open>messages[-max_history:]\<close>,
  and with \<open>max_history = 0\<close> this is \<^verbatim>\<open>messages[0:]\<close>, the whole list: a store created
  with capacity zero keeps every message that is ever added, so after \<open>n\<close> calls it holds
  \<open>n\<close> messages instead of none.
\<close>

theorem add_messages_capacity_zero_keeps_all:
  "messages (add_messages calls (Memory 0)) = built calls
   \<and> length (messages (add_messages calls (Memory 0))) = length calls"
proof -
  have "messages (add_messages calls (Memory 0)) = messages (Memory 0) @ built calls"
    by (rule add_messages_zero_capacity) (simp add: Memory_def)
  then show ?thesis by (simp add: Memory_def)
qed

lemma getitem_message [simp]:
  "getitem (message now role content) ''role'' = Inr (PStr role)"
  "getitem (message now role content) ''content'' = Inr content"
  by (simp_all add: getitem_def message_def)

lemma history_lines_built:
  "history_lines rp acc (built calls) = Inr (acc @ concat (map (history_line rp) calls))"
  by (induction calls arbitrary: acc) (auto simp: built_def history_line_def py_str_def)

text \<open>For \<open>n\<close> of at least one, the history is the lines of the last \<open>n\<close> messages (of all
  of them when there are fewer), in order.\<close>

lemma get_recent_history_pos:
  assumes "1 \<le> n" and "messages m = built calls"
  shows "get_recent_history rp n m =
           Inr (concat (map (history_line rp) (drop (length calls - nat n) calls)))"
proof -
  have len: "length (messages m) = length calls" using assms(2) by simp
  show ?thesis
  proof (cases "int (length calls) > n")
    case True
    then show ?thesis using assms
      by (simp add: get_recent_history_def len slice_from_neg built_drop history_lines_built)
  next
    case False
    then have "length calls - nat n = 0" by simp
    then show ?thesis using False assms
      by (simp add: get_recent_history_def len history_lines_built)
  qed
qed

text \<open>
  Claim C5 (\<^verbatim>\<open>get_recent_history(n)\<close> returns exactly the last \<open>n\<close> messages when the store
  holds \<open>n\<close> or more, for every natural number \<open>n\<close>). For \<open>n = 0\<close> the slice
  \<^verbatim>\<open>messages[-0:]\<close> is the whole list: on a store that is not empty the call returns the
  lines of all the messages instead of the empty text.
\<close>

theorem get_recent_history_zero_returns_all:
  "get_recent_history rp 0 \<lparr>messages = built (c # calls), tool_usage = tu, max_history = mh\<rparr>
     = Inr (concat (map (history_line rp) (c # calls)))"
  by (simp add: get_recent_history_def slice_from_zero history_lines_built)

lemma get_recent_history_zero_example:
  "get_recent_history rp 0
     \<lparr>messages = [message ''t1'' ''user'' (PStr ''hi'')], tool_usage = [], max_history = 100\<rparr>
     = Inr (''user: hi'' @ [CHR 0x0A])"
  by (simp add: get_recent_history_def slice_from_zero py_str_def)

section \<open>Properties of the tool executor\<close>

lemma appended_appended: "appended (appended ex rs) rs' = appended ex (rs @ rs')"
  by (simp add: appended_def)

lemma execute_once_fail:
  "body tf s p = (Inl (Exception msg), s') \<Longrightarrow>
   execute_once now tf p (ex, s) = (Inl (ToolFailure msg), (appended ex [failure_record now tf p msg], s'))"
  by (simp add: execute_once_def record_execution_def appended_def failure_record_def)

lemma execute_once_ok:
  "body tf s p = (Inr v, s') \<Longrightarrow>
   execute_once now tf p (ex, s) = (Inr v, (appended ex [success_record now tf p v], s'))"
  by (simp add: execute_once_def record_execution_def appended_def success_record_def)

lemma execute_once_interrupt:
  "body tf s p = (Inl (Interrupt msg), s') \<Longrightarrow>
   execute_once now tf p (ex, s) = (Inl (SystemExit msg), (ex, s'))"
  by (simp add: execute_once_def)

lemma retry_ok: "f k st = (Inr v, st') \<Longrightarrow> retry n k f st = (Inr v, st')"
  by (subst retry.simps) simp

lemma retry_again:
  "f k st = (Inl e, st') \<Longrightarrow> is_Exception e \<Longrightarrow> k < n \<Longrightarrow> k' = Suc k \<Longrightarrow>
   retry n k f st = retry n k' f st'"
  by (subst retry.simps) simp

lemma retry_stop:
  "f k st = (Inl e, st') \<Longrightarrow> is_Exception e \<Longrightarrow> n \<le> k \<Longrightarrow>
   retry n k f st = (Inl (RetryError e), st')"
  by (subst retry.simps) simp

lemma retry_escape:
  "f k st = (Inl e, st') \<Longrightarrow> \<not> is_Exception e \<Longrightarrow> retry n k f st = (Inl e, st')"
  by (subst retry.simps) simp

text \<open>Three attempts are made at most, and each of them appends its own record.\<close>

lemma execute_with_retry_three_attempts:
  assumes a1: "body tf s0 p = (Inl (Exception e1), s1)"
      and a2: "body tf s1 p = (Inl (Exception e2), s2)"
      and a3: "body tf s2 p = (map_sum Exception id r3, s3)"
  shows "execute_with_retry clk tf p (ex, s0) =
     ((case r3 of Inr v \<Rightarrow> Inr v | Inl e3 \<Rightarrow> Inl (RetryError (ToolFailure e3))),
      (appended ex [failure_record (clk 1) tf p e1, failure_record (clk 2) tf p e2,
                    (case r3 of Inr v \<Rightarrow> success_record (clk 3) tf p v
                              | Inl e3 \<Rightarrow> failure_record (clk 3) tf p e3)],
       s3))"
proof -
  let ?f = "\<lambda>k. execute_once (clk k) tf p"
  let ?ex1 = "appended ex [failure_record (clk 1) tf p e1]"
  let ?ex2 = "appended ex [failure_record (clk 1) tf p e1, failure_record (clk 2) tf p e2]"
  have s1: "?f 1 (ex, s0) = (Inl (ToolFailure e1), (?ex1, s1))"
    using a1 by (rule execute_once_fail)
  have s2: "?f 2 (?ex1, s1) = (Inl (ToolFailure e2), (?ex2, s2))"
    using execute_once_fail[OF a2, of "clk 2" ?ex1] by (simp add: appended_appended)
  have r1: "retry 3 1 ?f (ex, s0) = retry 3 2 ?f (?ex1, s1)"
    using s1 by (rule retry_again) simp_all
  have r2: "retry 3 2 ?f (?ex1, s1) = retry 3 3 ?f (?ex2, s2)"
    using s2 by (rule retry_again) simp_all
  show ?thesis
  proof (cases r3)
    case (Inl e3)
    then have b3: "body tf s2 p = (Inl (Exception e3), s3)" using a3 by simp
    have "?f 3 (?ex2, s2) =
            (Inl (ToolFailure e3), (appended ex [failure_record (clk 1) tf p e1,
               failure_record (clk 2) tf p e2, failure_record (clk 3) tf p e3], s3))"
      using execute_once_fail[OF b3, of "clk 3" ?ex2]
      by (simp add: appended_appended)
    then have "retry 3 3 ?f (?ex2, s2) =
            (Inl (RetryError (ToolFailure e3)), (appended ex [failure_record (clk 1) tf p e1,
               failure_record (clk 2) tf p e2, failure_record (clk 3) tf p e3], s3))"
      by (rule retry_stop) simp_all
    then show ?thesis unfolding execute_with_retry_def r1 r2 by (simp add: Inl)
  next
    case (Inr v)
    then have b3: "body tf s2 p = (Inr v, s3)" using a3 by simp
    have "?f 3 (?ex2, s2) =
            (Inr v, (appended ex [failure_record (clk 1) tf p e1,
               failure_record (clk 2) tf p e2, success_record (clk 3) tf p v], s3))"
      using execute_once_ok[OF b3, of "clk 3" ?ex2]
      by (simp add: appended_appended)
    then have "retry 3 3 ?f (?ex2, s2) =
            (Inr v, (appended ex [failure_record (clk 1) tf p e1,
               failure_record (clk 2) tf p e2, success_record (clk 3) tf p v], s3))"
      by (rule retry_ok)
    then show ?thesis unfolding execute_with_retry_def r1 r2 by (simp add: Inr)
  qed
qed

text \<open>
  Claim C1, as amended: when the tool fails on its first two attempts, a third attempt is
  made and no more. If the third attempt succeeds the call returns its value, if it
  fails the call raises tenacity's \<^verbatim>\<open>RetryError\<close> around the last exception (there is no
  \<^verbatim>\<open>ToolExecutionError\<close> in the program). In both cases the ledger has grown by three
  records, one for every attempt: two failures and then the final outcome. A failure is an
  \<^verbatim>\<open>Exception\<close> raised by the tool; \<open>r3\<close> is the message of the third failure or the value
  of the third call.
\<close>

theorem execute_with_retry_records_every_attempt:
  assumes "body tf s0 p = (Inl (Exception e1), s1)"
      and "body tf s1 p = (Inl (Exception e2), s2)"
      and "body tf s2 p = (map_sum Exception id r3, s3)"
  shows "execute_with_retry clk tf p (ex, s0) =
     ((case r3 of Inr v \<Rightarrow> Inr v | Inl e3 \<Rightarrow> Inl (RetryError (ToolFailure e3))),
      (appended ex [failure_record (clk 1) tf p e1, failure_record (clk 2) tf p e2,
                    (case r3 of Inr v \<Rightarrow> success_record (clk 3) tf p v
                              | Inl e3 \<Rightarrow> failure_record (clk 3) tf p e3)],
       s3))"
  using assms by (rule execute_with_retry_three_attempts)

theorem execute_with_retry_records_every_attempt_witness:
  "execute_with_retry (\<lambda>k. ''now'') flaky_tool (PDict []) (new_ToolExecutor 3, 0) =
     (Inr (PInt 7),
      (\<lparr>max_retries = 3, execution_history =
          [failure_record ''now'' flaky_tool (PDict []) ''boom'',
           failure_record ''now'' flaky_tool (PDict []) ''boom'',
           success_record ''now'' flaky_tool (PDict []) (PInt 7)]\<rparr>, 3))
   \<and> execute_with_retry (\<lambda>k. ''now'') failing_tool (PDict []) (new_ToolExecutor 3, 0) =
     (Inl (RetryError (ToolFailure ''boom'')),
      (\<lparr>max_retries = 3, execution_history =
          [failure_record ''now'' failing_tool (PDict []) ''boom'',
           failure_record ''now'' failing_tool (PDict []) ''boom'',
           failure_record ''now'' failing_tool (PDict []) ''boom'']\<rparr>, 3))"
  using execute_with_retry_records_every_attempt
          [of flaky_tool 0 "PDict []" "''boom''" 1 "''boom''" 2 "Inr (PInt 7)" 3 "\<lambda>k. ''now''" "new_ToolExecutor 3"]
        execute_with_retry_records_every_attempt
          [of failing_tool 0 "PDict []" "''boom''" 1 "''boom''" 2 "Inl ''boom''" 3 "\<lambda>k. ''now''" "new_ToolExecutor 3"]
  by (simp add: flaky_tool_def failing_tool_def new_ToolExecutor_def appended_def)

text \<open>Claim C1 as stated (exactly one record is appended) fails on the tool that raises
  twice and then returns.\<close>

theorem execute_with_retry_single_record_counterexample:
  "length (execution_history (fst (snd
      (execute_with_retry (\<lambda>k. ''now'') flaky_tool (PDict []) (new_ToolExecutor 3, 0))))) \<noteq> 1"
proof -
  have "execute_with_retry (\<lambda>k. ''now'') flaky_tool (PDict []) (new_ToolExecutor 3, 0) =
     (Inr (PInt 7),
      (appended (new_ToolExecutor 3) [failure_record ''now'' flaky_tool (PDict []) ''boom'',
           failure_record ''now'' flaky_tool (PDict []) ''boom'',
           success_record ''now'' flaky_tool (PDict []) (PInt 7)], 3))"
    using execute_with_retry_three_attempts[of flaky_tool 0 "PDict []" "''boom''" 1 "''boom''" 2
        "Inr (PInt 7)" 3 "\<lambda>k. ''now''" "new_ToolExecutor 3"]
    by (simp add: flaky_tool_def)
  then show ?thesis by (simp add: appended_def new_ToolExecutor_def)
qed

text \<open>An exception of the tool outside the class \<^verbatim>\<open>Exception\<close> is neither recorded nor
  retried: it leaves \<^verbatim>\<open>execute_with_retry\<close> as it is.\<close>

lemma execute_with_retry_interrupt:
  assumes "body tf s0 p = (Inl (Interrupt msg), s1)"
  shows "execute_with_retry clk tf p (ex, s0) = (Inl (SystemExit msg), (ex, s1))"
  unfolding execute_with_retry_def
  using execute_once_interrupt[OF assms, of "clk 1" ex]
  by (rule retry_escape) simp

lemma execute_with_retry_always_failing:
  assumes "\<forall>s. \<exists>msg s'. body tf s p = (Inl (Exception msg), s')"
  shows "\<exists>e st'. execute_with_retry clk tf p (ex, s0) = (Inl (RetryError e), st')"
proof -
  obtain e1 s1 where a1: "body tf s0 p = (Inl (Exception e1), s1)" using assms by blast
  obtain e2 s2 where a2: "body tf s1 p = (Inl (Exception e2), s2)" using assms by blast
  obtain e3 s3 where "body tf s2 p = (Inl (Exception e3), s3)" using assms by blast
  then have a3: "body tf s2 p = (map_sum Exception id (Inl e3), s3)" by simp
  show ?thesis
    using execute_with_retry_three_attempts[OF a1 a2 a3, of clk ex] by simp
qed

text \<open>What \<^verbatim>\<open>execute_with_retry\<close> raises is an \<^verbatim>\<open>Exception\<close> unless the tool itself has
  raised outside that class.\<close>

lemma execute_once_raises_Exception:
  assumes "\<forall>s m s'. body tf s p \<noteq> (Inl (Interrupt m), s')"
    and "execute_once now tf p st = (Inl e, st')"
  shows "is_Exception e"
proof (cases "body tf (snd st) p")
  case (Pair r s')
  show ?thesis
  proof (cases r)
    case (Inr v)
    then show ?thesis using assms(2) Pair by (simp add: execute_once_def)
  next
    case (Inl x)
    show ?thesis
    proof (cases x)
      case (Exception msg)
      then show ?thesis using assms(2) Pair Inl by (auto simp: execute_once_def)
    next
      case (Interrupt msg)
      then show ?thesis using assms(1) Pair Inl by blast
    qed
  qed
qed

lemma retry_raises_Exception:
  "(\<forall>k st e st'. f k st = (Inl e, st') \<longrightarrow> is_Exception e) \<Longrightarrow>
   retry n k f st = (Inl e, st') \<Longrightarrow> is_Exception e"
proof (induction n k f st rule: retry.induct)
  case (1 n k f st)
  obtain r st1 where f: "f k st = (r, st1)" by (cases "f k st")
  show ?case
  proof (cases r)
    case (Inr v)
    have "retry n k f st = (Inr v, st1)" using f Inr by (simp add: retry_ok)
    then show ?thesis using "1.prems"(2) by simp
  next
    case (Inl e1)
    have f1: "f k st = (Inl e1, st1)" using f Inl by simp
    have ex1: "is_Exception e1" using "1.prems"(1) f1 by blast
    show ?thesis
    proof (cases "n \<le> k")
      case True
      have "retry n k f st = (Inl (RetryError e1), st1)"
        using f1 ex1 True by (rule retry_stop)
      then show ?thesis using "1.prems"(2) by auto
    next
      case False
      have "retry n k f st = retry n (Suc k) f st1"
        using f1 ex1 by (rule retry_again) (use False in auto)
      then have "retry n (Suc k) f st1 = (Inl e, st')" using "1.prems"(2) by simp
      moreover have "\<not> \<not> is_Exception e1" using ex1 by simp
      ultimately show ?thesis
        using "1.IH"[OF f1[symmetric] refl _ False "1.prems"(1)] ex1 by blast
    qed
  qed
qed

lemma execute_with_retry_raises_Exception:
  assumes "\<forall>s m s'. body tf s p \<noteq> (Inl (Interrupt m), s')"
    and "execute_with_retry clk tf p st = (Inl e, st')"
  shows "is_Exception e"
  using assms(2) unfolding execute_with_retry_def
  by (rule retry_raises_Exception[rotated]) (use execute_once_raises_Exception[OF assms(1)] in blast)

text \<open>A default value whose rendering raises makes the handler of \<^verbatim>\<open>execute_safe\<close>
  raise.\<close>

lemma execute_safe_rendering_raises:
  assumes "\<forall>s. \<exists>msg s'. body tf s p = (Inl (Exception msg), s')" and "fmt d = Inl e"
  shows "fst (execute_safe clk fmt tf p d (ex, s0)) = Inl e"
proof -
  obtain e' st' where "execute_with_retry clk tf p (ex, s0) = (Inl (RetryError e'), st')"
    using execute_with_retry_always_failing[OF assms(1)] by blast
  then show ?thesis by (simp add: execute_safe_def assms(2))
qed

text \<open>
  Claim C7, as amended. \<^verbatim>\<open>execute_safe\<close> catches \<^verbatim>\<open>Exception\<close> only. When the tool raises
  nothing outside that class and the rendering of the default value does not raise,
  \<^verbatim>\<open>execute_safe\<close> returns a value; and with a tool that fails on every attempt it returns
  the default value.
\<close>

theorem execute_safe_returns:
  assumes "\<forall>s m s'. body tf s p \<noteq> (Inl (Interrupt m), s')" and "fmt d = Inr line"
  shows "(\<exists>v st'. execute_safe clk fmt tf p d st = (Inr v, st'))
   \<and> ((\<forall>s. \<exists>msg s'. body tf s p = (Inl (Exception msg), s')) \<longrightarrow>
        fst (execute_safe clk fmt tf p d st) = Inr d)"
proof
  obtain r st1 where w: "execute_with_retry clk tf p st = (r, st1)"
    by (cases "execute_with_retry clk tf p st")
  show "\<exists>v st'. execute_safe clk fmt tf p d st = (Inr v, st')"
  proof (cases r)
    case (Inr v)
    then show ?thesis using w by (simp add: execute_safe_def)
  next
    case (Inl e)
    then have "is_Exception e"
      using execute_with_retry_raises_Exception[OF assms(1)] w by blast
    then show ?thesis using w Inl assms(2) by (simp add: execute_safe_def)
  qed
next
  show "(\<forall>s. \<exists>msg s'. body tf s p = (Inl (Exception msg), s')) \<longrightarrow>
        fst (execute_safe clk fmt tf p d st) = Inr d"
  proof
    assume fails: "\<forall>s. \<exists>msg s'. body tf s p = (Inl (Exception msg), s')"
    obtain ex s0 where st: "st = (ex, s0)" by (cases st)
    obtain e st' where "execute_with_retry clk tf p (ex, s0) = (Inl (RetryError e), st')"
      using execute_with_retry_always_failing[OF fails] by blast
    then show "fst (execute_safe clk fmt tf p d st) = Inr d"
      by (simp add: execute_safe_def st assms(2))
  qed
qed

theorem execute_safe_returns_witness:
  "(\<forall>s m s'. body failing_tool s (PDict []) \<noteq> (Inl (Interrupt m), s'))
   \<and> (\<forall>s. \<exists>msg s'. body failing_tool s (PDict []) = (Inl (Exception msg), s'))
   \<and> fst (execute_safe (\<lambda>k. ''now'') (\<lambda>v. Inr ''X'') failing_tool (PDict []) (PStr ''X'')
            (new_ToolExecutor 3, 0))
       = Inr (PStr ''X'')"
proof -
  have h1: "\<forall>s m s'. body failing_tool s (PDict []) \<noteq> (Inl (Interrupt m), s')"
    by (simp add: failing_tool_def)
  have h2: "\<forall>s. \<exists>msg s'. body failing_tool s (PDict []) = (Inl (Exception msg), s')"
    by (simp add: failing_tool_def)
  show ?thesis
    using h1 h2 execute_safe_returns[of failing_tool "PDict []" "\<lambda>v. Inr ''X''" "PStr ''X''" "''X''"
        "\<lambda>k. ''now''" "(new_ToolExecutor 3, 0)"]
    by simp
qed

text \<open>Claim C7 as stated (\<^verbatim>\<open>execute_safe\<close> never raises, whatever the tool) fails on a
  tool that calls \<^verbatim>\<open>sys.exit\<close>: the exception is outside the class \<^verbatim>\<open>Exception\<close>, it is
  not retried and not caught, and \<^verbatim>\<open>execute_safe\<close> raises it.\<close>

theorem execute_safe_raises_counterexample:
  "fst (execute_safe (\<lambda>k. ''now'') (\<lambda>v. Inr ''X'') exiting_tool (PDict []) (PStr ''X'')
          (new_ToolExecutor 3, 0))
     = Inl (SystemExit ''bye'')"
proof -
  have "execute_with_retry (\<lambda>k. ''now'') exiting_tool (PDict []) (new_ToolExecutor 3, 0) =
          (Inl (SystemExit ''bye''), (new_ToolExecutor 3, 1))"
    by (rule execute_with_retry_interrupt) (simp add: exiting_tool_def)
  then show ?thesis by (simp add: execute_safe_def)
qed

section \<open>Properties of the planner\<close>

lemma conditional_appends:
  "(let steps = [];
        goal_lower = gl;
        steps = (if c1 goal_lower then steps @ [s1] else steps);
        steps = (if c2 goal_lower then steps @ [s2] else steps);
        steps = (if c3 goal_lower then steps @ [s3] else steps);
        steps = (if c4 goal_lower then steps @ [s4] else steps);
        steps = (if c5 goal_lower then steps @ [s5] else steps);
        steps = (if c6 goal_lower then steps @ [s6] else steps);
        steps = (if steps = [] then steps @ [t] else steps)
    in steps @ [y]) =
   (if c1 gl then [s1] else []) @ (if c2 gl then [s2] else []) @ (if c3 gl then [s3] else [])
     @ (if c4 gl then [s4] else []) @ (if c5 gl then [s5] else []) @ (if c6 gl then [s6] else [])
     @ (if \<not> (c1 gl \<or> c2 gl \<or> c3 gl \<or> c4 gl \<or> c5 gl \<or> c6 gl) then [t] else [])
     @ [y]"
  by (cases "c1 gl"; cases "c2 gl"; cases "c3 gl"; cases "c4 gl"; cases "c5 gl"; cases "c6 gl"; simp)

text \<open>The steps of a plan, written out: the step of every category whose keywords occur
  in the lowered goal, in the order of the tests; the think step when no category
  matched; the synthesize step.\<close>

lemma decompose_goal_shape:
  "decompose_goal lw g tools =
     (if list_ex (\<lambda>w. sublist w (lw g)) [''calculate'', ''compute'', ''+'', ''-'', ''*'', ''/'', ''sum'']
      then [[(''action'', ''use_tool''), (''tool'', ''calculator''),
             (''description'', ''Perform calculation'')]] else [])
     @ (if list_ex (\<lambda>w. sublist w (lw g)) [''search'', ''find'', ''look up'', ''research'']
        then [[(''action'', ''use_tool''), (''tool'', ''web_search''),
               (''description'', ''Search for information'')]] else [])
     @ (if sublist ''read'' (lw g) \<and> sublist ''file'' (lw g)
        then [[(''action'', ''use_tool''), (''tool'', ''file_read''),
               (''description'', ''Read file contents'')]] else [])
     @ (if sublist ''write'' (lw g) \<or> sublist ''save'' (lw g)
        then [[(''action'', ''use_tool''), (''tool'', ''file_write''),
               (''description'', ''Write to file'')]] else [])
     @ (if list_ex (\<lambda>w. sublist w (lw g)) [''time'', ''date'', ''when'', ''current'']
        then [[(''action'', ''use_tool''), (''tool'', ''get_current_time''),
               (''description'', ''Get current time'')]] else [])
     @ (if sublist ''weather'' (lw g)
        then [[(''action'', ''use_tool''), (''tool'', ''weather''),
               (''description'', ''Get weather information'')]] else [])
     @ (if \<not> (list_ex (\<lambda>w. sublist w (lw g))
                   [''calculate'', ''compute'', ''+'', ''-'', ''*'', ''/'', ''sum'']
               \<or> list_ex (\<lambda>w. sublist w (lw g)) [''search'', ''find'', ''look up'', ''research'']
               \<or> (sublist ''read'' (lw g) \<and> sublist ''file'' (lw g))
               \<or> (sublist ''write'' (lw g) \<or> sublist ''save'' (lw g))
               \<or> list_ex (\<lambda>w. sublist w (lw g)) [''time'', ''date'', ''when'', ''current'']
               \<or> sublist ''weather'' (lw g))
        then [[(''action'', ''think''),
               (''description'', ''Analyze the goal and determine approach'')]] else [])
     @ [[(''action'', ''synthesize''),
         (''description'', ''Combine results and provide final answer'')]]"
  unfolding decompose_goal_def any_in_def use_tool_step_def think_step_def synthesize_step_def
  by (rule conditional_appends)

lemma decompose_goal_lowered:
  "decompose_goal lw g tools = decompose_goal (\<lambda>s. s) (lw g) tools'"
  unfolding decompose_goal_def by (rule refl)

lemma decompose_calculate:
  "decompose_goal (\<lambda>s. s) ''calculate 2+2'' (PDict []) =
     [[(''action'', ''use_tool''), (''tool'', ''calculator''),
       (''description'', ''Perform calculation'')],
      [(''action'', ''synthesize''),
       (''description'', ''Combine results and provide final answer'')]]"
  by code_simp

lemma decompose_vague:
  "decompose_goal (\<lambda>s. s) ''do something vague'' (PDict []) =
     [[(''action'', ''think''), (''description'', ''Analyze the goal and determine approach'')],
      [(''action'', ''synthesize''),
       (''description'', ''Combine results and provide final answer'')]]"
  by code_simp

lemma ascii_lower_calculate: "ascii_lower ''Calculate 2+2'' = ''calculate 2+2''"
  by code_simp

lemma ascii_lower_vague: "ascii_lower ''Do something vague'' = ''do something vague''"
  by code_simp

lemma create_plan_plan:
  "fst (create_plan lw g tools p) =
     \<lparr>goal = g, steps = decompose_goal lw g tools, status = ''pending''\<rparr>"
  by (simp add: create_plan_def Let_def)

lemma create_plan_current:
  "current_plan (snd (create_plan lw g tools p)) = Some (fst (create_plan lw g tools p))"
  by (simp add: create_plan_def Let_def)

text \<open>
  Claim C6: the plan that \<^verbatim>\<open>create_plan\<close> returns is a function of the goal alone (the
  tool map and the planner's earlier state do not change it), and it becomes the current
  plan. Its steps are one \<^verbatim>\<open>use_tool\<close> step, naming its tool, for every category whose
  keywords occur in the lowered goal, then a single \<^verbatim>\<open>think\<close> step exactly when no category
  matches, then the \<^verbatim>\<open>synthesize\<close> step. \<^verbatim>\<open>"Calculate 2+2"\<close> gives the calculator step and
  the synthesize step; \<^verbatim>\<open>"Do something vague"\<close> gives one think step and the synthesize
  step.
\<close>

theorem create_plan_steps:
  "fst (create_plan lw g tools p) =
     \<lparr>goal = g,
      steps =
       (if list_ex (\<lambda>w. sublist w (lw g)) [''calculate'', ''compute'', ''+'', ''-'', ''*'', ''/'', ''sum'']
        then [[(''action'', ''use_tool''), (''tool'', ''calculator''),
               (''description'', ''Perform calculation'')]] else [])
       @ (if list_ex (\<lambda>w. sublist w (lw g)) [''search'', ''find'', ''look up'', ''research'']
          then [[(''action'', ''use_tool''), (''tool'', ''web_search''),
                 (''description'', ''Search for information'')]] else [])
       @ (if sublist ''read'' (lw g) \<and> sublist ''file'' (lw g)
          then [[(''action'', ''use_tool''), (''tool'', ''file_read''),
                 (''description'', ''Read file contents'')]] else [])
       @ (if sublist ''write'' (lw g) \<or> sublist ''save'' (lw g)
          then [[(''action'', ''use_tool''), (''tool'', ''file_write''),
                 (''description'', ''Write to file'')]] else [])
       @ (if list_ex (\<lambda>w. sublist w (lw g)) [''time'', ''date'', ''when'', ''current'']
          then [[(''action'', ''use_tool''), (''tool'', ''get_current_time''),
                 (''description'', ''Get current time'')]] else [])
       @ (if sublist ''weather'' (lw g)
          then [[(''action'', ''use_tool''), (''tool'', ''weather''),
                 (''description'', ''Get weather information'')]] else [])
       @ (if \<not> (list_ex (\<lambda>w. sublist w (lw g))
                     [''calculate'', ''compute'', ''+'', ''-'', ''*'', ''/'', ''sum'']
                 \<or> list_ex (\<lambda>w. sublist w (lw g)) [''search'', ''find'', ''look up'', ''research'']
                 \<or> (sublist ''read'' (lw g) \<and> sublist ''file'' (lw g))
                 \<or> (sublist ''write'' (lw g) \<or> sublist ''save'' (lw g))
                 \<or> list_ex (\<lambda>w. sublist w (lw g)) [''time'', ''date'', ''when'', ''current'']
                 \<or> sublist ''weather'' (lw g))
          then [[(''action'', ''think''),
                 (''description'', ''Analyze the goal and determine approach'')]] else [])
       @ [[(''action'', ''synthesize''),
           (''description'', ''Combine results and provide final answer'')]],
      status = ''pending''\<rparr>
   \<and> fst (create_plan lw g tools p) = fst (create_plan lw g tools' p')
   \<and> current_plan (snd (create_plan lw g tools p)) = Some (fst (create_plan lw g tools p))
   \<and> (lw ''Calculate 2+2'' = ''calculate 2+2'' \<longrightarrow>
        steps (fst (create_plan lw ''Calculate 2+2'' (PDict []) p)) =
          [[(''action'', ''use_tool''), (''tool'', ''calculator''),
            (''description'', ''Perform calculation'')],
           [(''action'', ''synthesize''),
            (''description'', ''Combine results and provide final answer'')]])
   \<and> (lw ''Do something vague'' = ''do something vague'' \<longrightarrow>
        steps (fst (create_plan lw ''Do something vague'' (PDict []) p)) =
          [[(''action'', ''think''), (''description'', ''Analyze the goal and determine approach'')],
           [(''action'', ''synthesize''),
            (''description'', ''Combine results and provide final answer'')]])"
proof (intro conjI impI)
  show "fst (create_plan lw g tools p) =
     \<lparr>goal = g,
      steps =
       (if list_ex (\<lambda>w. sublist w (lw g)) [''calculate'', ''compute'', ''+'', ''-'', ''*'', ''/'', ''sum'']
        then [[(''action'', ''use_tool''), (''tool'', ''calculator''),
               (''description'', ''Perform calculation'')]] else [])
       @ (if list_ex (\<lambda>w. sublist w (lw g)) [''search'', ''find'', ''look up'', ''research'']
          then [[(''action'', ''use_tool''), (''tool'', ''web_search''),
                 (''description'', ''Search for information'')]] else [])
       @ (if sublist ''read'' (lw g) \<and> sublist ''file'' (lw g)
          then [[(''action'', ''use_tool''), (''tool'', ''file_read''),
                 (''description'', ''Read file contents'')]] else [])
       @ (if sublist ''write'' (lw g) \<or> sublist ''save'' (lw g)
          then [[(''action'', ''use_tool''), (''tool'', ''file_write''),
                 (''description'', ''Write to file'')]] else [])
       @ (if list_ex (\<lambda>w. sublist w (lw g)) [''time'', ''date'', ''when'', ''current'']
          then [[(''action'', ''use_tool''), (''tool'', ''get_current_time''),
                 (''description'', ''Get current time'')]] else [])
       @ (if sublist ''weather'' (lw g)
          then [[(''action'', ''use_tool''), (''tool'', ''weather''),
                 (''description'', ''Get weather information'')]] else [])
       @ (if \<not> (list_ex (\<lambda>w. sublist w (lw g))
                     [''calculate'', ''compute'', ''+'', ''-'', ''*'', ''/'', ''sum'']
                 \<or> list_ex (\<lambda>w. sublist w (lw g)) [''search'', ''find'', ''look up'', ''research'']
                 \<or> (sublist ''read'' (lw g) \<and> sublist ''file'' (lw g))
                 \<or> (sublist ''write'' (lw g) \<or> sublist ''save'' (lw g))
                 \<or> list_ex (\<lambda>w. sublist w (lw g)) [''time'', ''date'', ''when'', ''current'']
                 \<or> sublist ''weather'' (lw g))
          then [[(''action'', ''think''),
                 (''description'', ''Analyze the goal and determine approach'')]] else [])
       @ [[(''action'', ''synthesize''),
           (''description'', ''Combine results and provide final answer'')]],
      status = ''pending''\<rparr>"
    by (simp only: create_plan_plan decompose_goal_shape)
  show "fst (create_plan lw g tools p) = fst (create_plan lw g tools' p')"
    by (simp only: create_plan_plan decompose_goal_lowered[of lw g tools "PDict []"]
        decompose_goal_lowered[of lw g tools' "PDict []"])
  show "current_plan (snd (create_plan lw g tools p)) = Some (fst (create_plan lw g tools p))"
    by (rule create_plan_current)
next
  assume h: "lw ''Calculate 2+2'' = ''calculate 2+2''"
  have "steps (fst (create_plan lw ''Calculate 2+2'' (PDict []) p)) =
          decompose_goal (\<lambda>s. s) (lw ''Calculate 2+2'') (PDict [])"
    by (simp add: create_plan_plan decompose_goal_lowered[of lw _ "PDict []" "PDict []"])
  then show "steps (fst (create_plan lw ''Calculate 2+2'' (PDict []) p)) =
          [[(''action'', ''use_tool''), (''tool'', ''calculator''),
            (''description'', ''Perform calculation'')],
           [(''action'', ''synthesize''),
            (''description'', ''Combine results and provide final answer'')]]"
    by (simp only: h decompose_calculate)
next
  assume h: "lw ''Do something vague'' = ''do something vague''"
  have "steps (fst (create_plan lw ''Do something vague'' (PDict []) p)) =
          decompose_goal (\<lambda>s. s) (lw ''Do something vague'') (PDict [])"
    by (simp add: create_plan_plan decompose_goal_lowered[of lw _ "PDict []" "PDict []"])
  then show "steps (fst (create_plan lw ''Do something vague'' (PDict []) p)) =
          [[(''action'', ''think''), (''description'', ''Analyze the goal and determine approach'')],
           [(''action'', ''synthesize''),
            (''description'', ''Combine results and provide final answer'')]]"
    by (simp only: h decompose_vague)
qed

theorem create_plan_steps_witness:
  "ascii_lower ''Calculate 2+2'' = ''calculate 2+2''
   \<and> ascii_lower ''Do something vague'' = ''do something vague''
   \<and> steps (fst (create_plan ascii_lower ''Calculate 2+2'' (PDict []) \<lparr>current_plan = None\<rparr>)) =
          [[(''action'', ''use_tool''), (''tool'', ''calculator''),
            (''description'', ''Perform calculation'')],
           [(''action'', ''synthesize''),
            (''description'', ''Combine results and provide final answer'')]]
   \<and> steps (fst (create_plan ascii_lower ''Do something vague'' (PDict []) \<lparr>current_plan = None\<rparr>)) =
          [[(''action'', ''think''), (''description'', ''Analyze the goal and determine approach'')],
           [(''action'', ''synthesize''),
            (''description'', ''Combine results and provide final answer'')]]"
  using create_plan_steps[of ascii_lower "''Calculate 2+2''" "PDict []" "\<lparr>current_plan = None\<rparr>"
          "PDict []" "\<lparr>current_plan = None\<rparr>", THEN conjunct2, THEN conjunct2, THEN conjunct2]
        ascii_lower_calculate ascii_lower_vague
  by blast

lemma update_plan_status_no_plan:
  "current_plan p = None \<Longrightarrow> update_plan_status i st p = Inr p"
  by (simp add: update_plan_status_def)

lemma update_plan_status_beyond:
  "current_plan p = Some pl \<Longrightarrow> int (length (steps pl)) \<le> i \<Longrightarrow>
   update_plan_status i st p = Inr p"
  by (simp add: update_plan_status_def)

lemma update_plan_status_in_range:
  "current_plan p = Some pl \<Longrightarrow> 0 \<le> i \<Longrightarrow> i < int (length (steps pl)) \<Longrightarrow>
   update_plan_status i st p =
     Inr (p\<lparr>current_plan := Some (pl\<lparr>steps :=
            (steps pl)[nat i := AList.update ''status'' st (steps pl ! nat i)]\<rparr>)\<rparr>)"
  by (simp add: update_plan_status_def Let_def)

lemma update_plan_status_from_end:
  "current_plan p = Some pl \<Longrightarrow> i < 0 \<Longrightarrow> - int (length (steps pl)) \<le> i \<Longrightarrow>
   update_plan_status i st p =
     Inr (p\<lparr>current_plan := Some (pl\<lparr>steps :=
            (steps pl)[nat (int (length (steps pl)) + i) :=
               AList.update ''status'' st (steps pl ! nat (int (length (steps pl)) + i))]\<rparr>)\<rparr>)"
  by (simp add: update_plan_status_def Let_def)

lemma update_plan_status_below:
  "current_plan p = Some pl \<Longrightarrow> i < - int (length (steps pl)) \<Longrightarrow>
   update_plan_status i st p = Inl (IndexError ''list index out of range'')"
  by (simp add: update_plan_status_def Let_def)

lemma update_status_only:
  "k \<noteq> ''status'' \<Longrightarrow> map_of (AList.update ''status'' st s) k = map_of s k"
  by (simp add: update_conv')

lemma decompose_vague_ascii:
  "decompose_goal ascii_lower ''Do something vague'' (PDict []) = [think_step, synthesize_step]"
  by (simp only: decompose_goal_lowered[of ascii_lower _ "PDict []" "PDict []"] ascii_lower_vague
      decompose_vague think_step_def synthesize_step_def)

text \<open>
  Claim C9 (\<^verbatim>\<open>update_plan_status\<close> is a silent no-op whenever the index is out of bounds).
  The guard \<^verbatim>\<open>step_index < len(steps)\<close> lets every negative index through; an index below
  \<^verbatim>\<open>-len(steps)\<close> then raises IndexError in the subscript. With the two-step plan of
  \<^verbatim>\<open>"Do something vague"\<close> and index \<open>-3\<close> the call raises.
\<close>

theorem update_plan_status_negative_index_raises:
  "update_plan_status (- 3) ''completed''
     (snd (create_plan ascii_lower ''Do something vague'' (PDict []) \<lparr>current_plan = None\<rparr>))
   = Inl (IndexError ''list index out of range'')"
proof -
  have "current_plan (snd (create_plan ascii_lower ''Do something vague'' (PDict [])
            \<lparr>current_plan = None\<rparr>))
        = Some \<lparr>goal = ''Do something vague'', steps = [think_step, synthesize_step],
                status = ''pending''\<rparr>"
    by (simp add: create_plan_def Let_def decompose_vague_ascii)
  then show ?thesis
    by (rule update_plan_status_below) simp
qed

section \<open>Properties of the agent\<close>




lemma wf_message_message [simp]: "wf_message (message now role content)"
  by (simp add: wf_message_def)



lemma max_history_add_tool_use [simp]:
  "max_history (add_tool_use now tname ti tr m) = max_history m"
  by (simp add: add_tool_use_def)




















text \<open>The scripted environments.\<close>

lemma wf_memory_Memory [simp]: "wf_memory (Memory mh)"
  by (simp add: wf_memory_def Memory_def)

lemma short_not_deep: "length s < 100000 \<Longrightarrow> s \<noteq> deep_reply"
  by (auto simp: deep_reply_def)

lemma think_reply_not_deep [simp]: "think_reply \<noteq> deep_reply"
  by (rule short_not_deep) (simp add: think_reply_def)

lemma complete_reply_not_deep [simp]: "complete_reply \<noteq> deep_reply"
  by (rule short_not_deep) (simp add: complete_reply_def)

lemma think_reply_not_complete [simp]:
  "think_reply \<noteq> complete_reply" "complete_reply \<noteq> think_reply"
  by (simp_all add: think_reply_def complete_reply_def)

lemma scripted_fields [simp]:
  "completion (scripted replies) k = Inr (replies k)"
  "clock (scripted replies) k = ''now''"
  "render (scripted replies) v = ''<value>''"
  "str_lower (scripted replies) = ascii_lower"
  "tool_call (scripted replies) k nm ps = Inr (PStr ''ok'')"
  by (simp_all add: scripted_def)

















section \<open>Properties of persistence\<close>



lemma load_from_file_missing:
  "fs path = None \<Longrightarrow> load_from_file J path fs m = Inl (FileNotFoundError path)"
  by (simp add: load_from_file_def)




end
